theory Spec2Isabelle
  imports Main "HOL-Library.Sublist"
begin

section \<open>Strings of the server\<close>

text \<open>
  The backend \<^verbatim>\<open>server/mock-api.js\<close> works on JavaScript strings. They are modelled as
  \<^typ>\<open>string\<close>, the UTF-8 bytes of the text. Every keyword the server searches for is
  ASCII, and an ASCII byte never occurs inside a multi-byte UTF-8 sequence, so a substring test
  for a keyword on the bytes agrees with the test on the UTF-16 code units.

  \<^verbatim>\<open>String.prototype.toLowerCase\<close> belongs to the runtime, not to the server. The functions
  below that call it take it as their first argument \<open>lower\<close>, and what is proved of them is
  proved for every such function, so for the runtime's one with all its Unicode mappings
  (the Kelvin sign to \<open>k\<close>, the dotted capital I to \<open>i\<close> and a combining dot, and so on).
\<close>

text \<open>On a text of ASCII characters the runtime's function moves \<open>A\<close> .. \<open>Z\<close> (65 .. 90) to
  \<open>a\<close> .. \<open>z\<close> and keeps every other character. \<open>ascii_toLowerCase\<close> is that function; it
  stands for the runtime's one where the server is run on a concrete ASCII text.\<close>

definition ascii_toLowerCase_char :: "char \<Rightarrow> char" where
  "ascii_toLowerCase_char c =
     (let n = (of_char c :: nat) in if 65 \<le> n \<and> n \<le> 90 then char_of (n + 32) else c)"

definition ascii_toLowerCase :: "string \<Rightarrow> string" where
  "ascii_toLowerCase s = map ascii_toLowerCase_char s"

text \<open>\<^verbatim>\<open>s.startsWith(k)\<close> and \<^verbatim>\<open>s.includes(k)\<close>: \<open>k\<close> occurs in \<open>s\<close> at some position.\<close>

fun startsWith :: "string \<Rightarrow> string \<Rightarrow> bool" where
  "startsWith s [] = True"
| "startsWith [] (k # ks) = False"
| "startsWith (c # cs) (k # ks) = (c = k \<and> startsWith cs ks)"

fun str_includes :: "string \<Rightarrow> string \<Rightarrow> bool" where
  "str_includes [] k = (k = [])"
| "str_includes (c # cs) k = (startsWith (c # cs) k \<or> str_includes cs k)"

text \<open>A property of the runtime's lower-casing: an ASCII character that is not a capital
  letter is mapped to itself wherever it stands, so a run of such characters in a text is
  still there in the lower-cased text.\<close>

definition lower_case_ascii :: "char \<Rightarrow> bool" where
  "lower_case_ascii c =
     (let n = (of_char c :: nat) in n < 128 \<and> \<not> (65 \<le> n \<and> n \<le> 90))"

definition keeps_lower_case :: "(string \<Rightarrow> string) \<Rightarrow> bool" where
  "keeps_lower_case lower =
     (\<forall>s k. list_all lower_case_ascii k \<and> str_includes s k \<longrightarrow> str_includes (lower s) k)"

text \<open>\<^verbatim>\<open>xs.join(sep)\<close>.\<close>

fun join :: "string \<Rightarrow> string list \<Rightarrow> string" where
  "join sep [] = []"
| "join sep [x] = x"
| "join sep (x # y # ys) = x @ sep @ join sep (y # ys)"

definition newline :: string where
  "newline = [CHR 0x0A]"

text \<open>The bullet U+2022, the warning sign U+26A0 U+FE0F and the degree sign U+00B0 of the
  reply templates, in UTF-8.\<close>

definition bullet :: string where
  "bullet = [CHR 0xE2, CHR 0x80, CHR 0xA2]"

definition warning_sign :: string where
  "warning_sign = [CHR 0xE2, CHR 0x9A, CHR 0xA0, CHR 0xEF, CHR 0xB8, CHR 0x8F]"

definition degree_sign :: string where
  "degree_sign = [CHR 0xC2, CHR 0xB0]"


section \<open>Triage classifier: \<^verbatim>\<open>mockTriageSymptoms\<close>\<close>

record triage_result =
  urgency_level :: string
  reasoning :: string
  recommendations :: "string list"

definition emergency_keywords :: "string list" where
  "emergency_keywords =
     [''chest pain'', ''difficulty breathing'', ''severe bleeding'', ''unconscious'', ''stroke'',
      ''heart attack'']"

definition high_keywords :: "string list" where
  "high_keywords =
     [''severe pain'', ''high fever'', ''vomiting blood'', ''severe headache'',
      ''difficulty swallowing'']"

definition medium_keywords :: "string list" where
  "medium_keywords = [''fever'', ''persistent cough'', ''moderate pain'', ''rash'', ''nausea'']"

definition low_keywords :: "string list" where
  "low_keywords = [''mild headache'', ''minor cut'', ''cold symptoms'', ''fatigue'']"

text \<open>\<^verbatim>\<open>Object.entries(urgencyKeywords)\<close>: the own string keys in the order the literal lists
  them.\<close>

definition urgencyKeywords :: "(string \<times> string list) list" where
  "urgencyKeywords =
     [(''emergency'', emergency_keywords), (''high'', high_keywords),
      (''medium'', medium_keywords), (''low'', low_keywords)]"

definition low_recommendations :: "string list" where
  "low_recommendations =
     [''Monitor symptoms'', ''Rest and self-care'', ''Contact doctor if symptoms persist'']"

text \<open>The nested conditional of lines 48--54.\<close>

definition recommendations_for :: "string \<Rightarrow> string list" where
  "recommendations_for level =
     (if level = ''emergency'' then [''Call 911 immediately'', ''Go to nearest emergency room'']
      else if level = ''high''
        then [''Seek immediate medical attention'', ''Visit urgent care or emergency room'']
      else if level = ''medium''
        then [''Schedule appointment with primary care'',
              ''Consider urgent care if symptoms worsen'']
      else low_recommendations)"

text \<open>The \<^verbatim>\<open>for (const [level, keywords] of ...)\<close> loop, with the \<^verbatim>\<open>return\<close> after it as
  the empty case.\<close>

fun triage_loop :: "string \<Rightarrow> (string \<times> string list) list \<Rightarrow> triage_result" where
  "triage_loop lowerSymptoms [] =
     \<lparr>urgency_level = ''low'',
      reasoning = ''Symptoms appear to be minor and manageable.'',
      recommendations = low_recommendations\<rparr>"
| "triage_loop lowerSymptoms ((level, keywords) # rest) =
     (if list_ex (\<lambda>keyword. str_includes lowerSymptoms keyword) keywords
      then \<lparr>urgency_level = level,
            reasoning =
              ''Based on the symptoms described, this appears to be '' @ level @ '' urgency.'',
            recommendations = recommendations_for level\<rparr>
      else triage_loop lowerSymptoms rest)"

definition mockTriageSymptoms :: "(string \<Rightarrow> string) \<Rightarrow> string \<Rightarrow> triage_result" where
  "mockTriageSymptoms lower symptoms = triage_loop (lower symptoms) urgencyKeywords"

text \<open>The spec's reading of the classifier: a tier is hit when one of its keywords occurs
  in the lower-cased text.\<close>

definition hit :: "string \<Rightarrow> string list \<Rightarrow> bool" where
  "hit lowerSymptoms keywords = list_ex (str_includes lowerSymptoms) keywords"


section \<open>Property lookup on an object literal\<close>

text \<open>
  \<^verbatim>\<open>clinics\<close> and \<^verbatim>\<open>conversationStore\<close> are plain object literals used as dictionaries, so
  \<^verbatim>\<open>obj[key]\<close> finds the object's own property and otherwise walks to \<^verbatim>\<open>Object.prototype\<close>,
  whose members (functions, and the prototype object itself for \<^verbatim>\<open>__proto__\<close>) are all
  truthy. Only a key that is neither own nor inherited reads as \<^verbatim>\<open>undefined\<close>. The own
  properties are a map; \<open>delete\<close> and assignment act on them.
\<close>

datatype 'a js_property = Own 'a | Inherited string | Undefined

definition object_prototype_keys :: "string list" where
  "object_prototype_keys =
     [''constructor'', ''__proto__'', ''hasOwnProperty'', ''isPrototypeOf'',
      ''propertyIsEnumerable'', ''toLocaleString'', ''toString'', ''valueOf'',
      ''__defineGetter__'', ''__defineSetter__'', ''__lookupGetter__'', ''__lookupSetter__'']"

definition js_get :: "(string \<rightharpoonup> 'a) \<Rightarrow> string \<Rightarrow> 'a js_property" where
  "js_get obj key =
     (case obj key of
        Some v \<Rightarrow> Own v
      | None \<Rightarrow> if key \<in> set object_prototype_keys then Inherited key else Undefined)"

datatype js_error = TypeError


section \<open>Clinic directory: \<^verbatim>\<open>mockFindClinic\<close>\<close>

record clinic =
  name :: string
  address :: string
  phone :: string
  type :: string
  wait_time :: string
  accepts_insurance :: bool

text \<open>The object literal \<^verbatim>\<open>clinics\<close> of lines 67--108, as its list of entries.\<close>

definition clinics_table :: "string \<Rightarrow> (string \<times> clinic list) list" where
  "clinics_table location =
     [(''emergency'',
        [\<lparr>name = ''City General Hospital Emergency Room'',
          address = ''123 Main St, '' @ location,
          phone = ''(555) 911-1234'',
          type = ''Emergency Room'',
          wait_time = ''15-30 minutes'',
          accepts_insurance = True\<rparr>]),
      (''high'',
        [\<lparr>name = ''QuickCare Urgent Care'',
          address = ''456 Oak Ave, '' @ location,
          phone = ''(555) 555-0123'',
          type = ''Urgent Care'',
          wait_time = ''30-45 minutes'',
          accepts_insurance = True\<rparr>]),
      (''medium'',
        [\<lparr>name = ''Family Health Center'',
          address = ''789 Pine St, '' @ location,
          phone = ''(555) 555-0456'',
          type = ''Primary Care'',
          wait_time = ''Same day appointments available'',
          accepts_insurance = True\<rparr>]),
      (''low'',
        [\<lparr>name = ''Community Health Clinic'',
          address = ''321 Elm St, '' @ location,
          phone = ''(555) 555-0789'',
          type = ''Primary Care'',
          wait_time = ''Next day appointments'',
          accepts_insurance = True\<rparr>])]"

text \<open>\<^verbatim>\<open>clinics.low\<close>: the own property \<open>low\<close> of the literal.\<close>

definition clinics_low :: "string \<Rightarrow> clinic list" where
  "clinics_low location = (case map_of (clinics_table location) ''low'' of Some cs \<Rightarrow> cs | None \<Rightarrow> [])"

text \<open>The value of the \<^verbatim>\<open>clinics\<close> field of the result: an array of clinic records, or the
  member of \<^verbatim>\<open>Object.prototype\<close> that \<^verbatim>\<open>clinics[urgency]\<close> found.\<close>

datatype clinics_value = ClinicList "clinic list" | PrototypeMember string

record clinic_result =
  clinics :: clinics_value
  result_location :: string
  result_urgency_level :: string

text \<open>\<^verbatim>\<open>clinics[urgency] || clinics.low\<close>: an array is truthy even when empty, an inherited
  member is truthy, \<^verbatim>\<open>undefined\<close> is falsy.\<close>

definition mockFindClinic :: "string \<Rightarrow> string \<Rightarrow> clinic_result" where
  "mockFindClinic location urgency =
     \<lparr>clinics =
        (case js_get (map_of (clinics_table location)) urgency of
           Own cs \<Rightarrow> ClinicList cs
         | Inherited member \<Rightarrow> PrototypeMember member
         | Undefined \<Rightarrow> ClinicList (clinics_low location)),
      result_location = location,
      result_urgency_level = urgency\<rparr>"

definition valid_tiers :: "string list" where
  "valid_tiers = [''emergency'', ''high'', ''medium'', ''low'']"

text \<open>\<^verbatim>\<open>s.endsWith(k)\<close>.\<close>

definition endsWith :: "string \<Rightarrow> string \<Rightarrow> bool" where
  "endsWith s k = startsWith (rev s) (rev k)"


section \<open>Insurance summarizer: \<^verbatim>\<open>mockInsuranceCheck\<close>\<close>

record coverage =
  primary_care :: string
  specialist :: string
  urgent_care :: string
  emergency_room :: string
  prescription_drugs :: string

record insurance_summary =
  plan_name :: string
  provider :: string
  member_id :: string
  group_number :: string
  coverage_details :: coverage
  key_benefits :: "string list"
  filename :: string

definition mockInsuranceCheck :: "string \<Rightarrow> insurance_summary" where
  "mockInsuranceCheck file_name =
     \<lparr>plan_name = ''Health Plus Premium Plan'',
      provider = ''Blue Cross Blue Shield'',
      member_id = ''ABC123456789'',
      group_number = ''GRP001'',
      coverage_details =
        \<lparr>primary_care = ''$25 copay'',
         specialist = ''$50 copay'',
         urgent_care = ''$75 copay'',
         emergency_room = ''$300 copay'',
         prescription_drugs = ''$10/$30/$60 copay''\<rparr>,
      key_benefits =
        [''Preventive care covered 100%'',
         ''Annual deductible: $1,500'',
         ''Out-of-pocket maximum: $6,000'',
         ''Network coverage nationwide''],
      filename = file_name\<rparr>"


section \<open>Responses\<close>

datatype json_body =
    Error_body string
  | Chat_body string string string
  | Upload_body string string insurance_summary string
  | Reset_body string string

text \<open>\<open>Error_body error\<close>; \<open>Chat_body reply status thread_id\<close>;
  \<open>Upload_body status filename insurance_summary message\<close>; \<open>Reset_body status message\<close>.\<close>

record response =
  http_status :: nat
  body :: json_body


section \<open>The upload handler: \<^verbatim>\<open>POST /api/upload\<close>\<close>

text \<open>\<^verbatim>\<open>req.file\<close> as multer leaves it: absent, or the description of the stored file. The
  handler reads the original name and the MIME type only; the content stays on disk under
  \<open>path\<close>.\<close>

record uploaded_file =
  originalname :: string
  mimetype :: string
  path :: string
  size :: nat

definition upload :: "uploaded_file option \<Rightarrow> response" where
  "upload file =
     (case file of
        None \<Rightarrow> \<lparr>http_status = 400, body = Error_body ''No file provided''\<rparr>
      | Some f \<Rightarrow>
          if mimetype f \<noteq> ''application/pdf''
          then \<lparr>http_status = 400, body = Error_body ''Only PDF files are allowed''\<rparr>
          else
            (let summary = mockInsuranceCheck (originalname f)
             in \<lparr>http_status = 200,
                 body = Upload_body ''success'' (originalname f) summary
                          ''Insurance document processed successfully''\<rparr>))"


section \<open>Reply composition of \<^verbatim>\<open>POST /api/chat\<close>\<close>

text \<open>The request body after \<^verbatim>\<open>express.json()\<close>. The message and the user id are typed as
  the interface documents them, optional strings. The profile is whatever JSON value the body
  holds; \<open>None\<close> is a field the body does not have.\<close>

text \<open>The value of the profile's \<open>location\<close> property, by what the handler does with it: it
  tests its truthiness and converts it to a string.
  \<^item> \<open>Location_string\<close>: a JSON string, falsy when empty;
  \<^item> \<open>Location_falsy\<close>: \<open>null\<close>, \<open>false\<close> or \<open>0\<close>;
  \<^item> \<open>Location_truthy t\<close>: \<open>true\<close>, a number other than zero, an array or an object, with
    the string \<open>t\<close> that the conversion yields;
  \<^item> \<open>Location_unconvertible\<close>: an object with an own property \<open>toString\<close> (or an array
    holding one); it is truthy and its conversion to a string throws a \<^verbatim>\<open>TypeError\<close>.\<close>

datatype location_value =
    Location_string string
  | Location_falsy
  | Location_truthy string
  | Location_unconvertible

text \<open>The profile: \<open>null\<close>, or a value whose property \<open>location\<close> can be read: an object
  with or without the property (\<open>Profile_object None\<close> also stands for an array, a string, a
  number and a boolean, where the property reads as \<^verbatim>\<open>undefined\<close>).\<close>

datatype profile_value =
    Profile_null
  | Profile_object "location_value option"

record chat_request =
  message :: "string option"
  profile :: "profile_value option"
  user_id :: "string option"

text \<open>\<^verbatim>\<open>const location = profile.location || 'your area'\<close> (lines 172 and 197), with the
  default \<^verbatim>\<open>profile = {}\<close> of the destructuring, followed by the conversion of the location
  to a string where \<^verbatim>\<open>mockFindClinic\<close> first concatenates it. Reading a property of \<open>null\<close>
  throws; a missing or falsy location gives \<open>your area\<close>.\<close>

definition profile_location :: "profile_value option \<Rightarrow> js_error + string" where
  "profile_location p =
     (case p of
        None \<Rightarrow> Inr ''your area''
      | Some Profile_null \<Rightarrow> Inl TypeError
      | Some (Profile_object None) \<Rightarrow> Inr ''your area''
      | Some (Profile_object (Some (Location_string l))) \<Rightarrow>
          Inr (if l = [] then ''your area'' else l)
      | Some (Profile_object (Some Location_falsy)) \<Rightarrow> Inr ''your area''
      | Some (Profile_object (Some (Location_truthy t))) \<Rightarrow> Inr t
      | Some (Profile_object (Some Location_unconvertible)) \<Rightarrow> Inl TypeError)"

definition greeting_reply :: string where
  "greeting_reply =
     ''Hello! I'm Nurse Ally, your virtual nursing assistant. I'm here to help you understand '' @
     ''your symptoms and guide you to appropriate care. What symptoms are you experiencing today?''"

definition emergency_warning :: string where
  "emergency_warning =
     warning_sign @ '' If this is a medical emergency, please call 911 immediately.''"

definition disclaimer :: string where
  "disclaimer =
     ''Please remember that I'm a virtual assistant and cannot replace professional medical '' @
     ''evaluation.''"

definition recommendation_lines :: "string list \<Rightarrow> string" where
  "recommendation_lines recs = join newline (map (\<lambda>rec. bullet @ '' '' @ rec) recs)"

text \<open>The last paragraph of the pain reply, line 183.\<close>

definition pain_closing :: "string \<Rightarrow> string" where
  "pain_closing level = (if level = ''emergency'' then emergency_warning else disclaimer)"

definition pain_reply :: "triage_result \<Rightarrow> string \<Rightarrow> clinic list \<Rightarrow> string" where
  "pain_reply triage loc cs =
     (''I understand you're experiencing pain. Based on your symptoms, I've assessed this as '' @
      urgency_level triage @ '' urgency. '' @ reasoning triage @ newline @ newline @
      ''My recommendations:'' @ newline @
      recommendation_lines (recommendations triage) @ newline @ newline @
      ''Here are some nearby healthcare options in '' @ loc @ '':'' @ newline @
      join newline
        (map (\<lambda>c. bullet @ '' '' @ name c @ '' - '' @ address c @ '' - '' @ phone c @
                  '' ('' @ wait_time c @ '')'') cs) @ newline @ newline) @
     pain_closing (urgency_level triage)"

definition fever_reply :: "triage_result \<Rightarrow> string" where
  "fever_reply triage =
     ''I see you're experiencing a fever. This is concerning and I want to help you get the '' @
     ''right care. Based on your symptoms, I've assessed this as '' @
     urgency_level triage @ '' urgency.'' @ newline @ newline @
     reasoning triage @ newline @ newline @
     ''My recommendations:'' @ newline @
     recommendation_lines (recommendations triage) @ newline @ newline @
     ''In the meantime, make sure to stay hydrated and rest. If your fever is very high '' @
     ''(over 103'' @ degree_sign @ ''F) or you're experiencing difficulty breathing, please '' @
     ''seek immediate medical attention.''"

definition insurance_reply :: string where
  "insurance_reply =
     ''I can help you understand your insurance coverage! If you have your insurance card or '' @
     ''policy document, you can upload it and I'll help you understand your benefits. You can '' @
     ''also tell me your insurance provider and I'll give you general guidance about finding '' @
     ''in-network providers.''"

definition clinic_reply :: "string \<Rightarrow> clinic list \<Rightarrow> string" where
  "clinic_reply loc cs =
     ''I can help you find healthcare providers in '' @ loc @ ''. Here are some options:'' @
     newline @ newline @
     join (newline @ newline)
       (map (\<lambda>c. bullet @ '' '' @ name c @ newline @ ''  '' @ address c @ newline @ ''  '' @
                 phone c @ newline @ ''  '' @ wait_time c) cs) @ newline @ newline @
     ''Would you like me to help you understand what type of care might be best for your '' @
     ''specific symptoms?''"

definition fallback_reply :: string where
  "fallback_reply =
     ''Thank you for sharing that with me. I'm here to help assess your symptoms and guide you '' @
     ''to appropriate care. '' @ newline @ newline @
     ''Could you tell me more about:'' @ newline @
     bullet @ '' What specific symptoms you're experiencing?'' @ newline @
     bullet @ '' How long you've had these symptoms?'' @ newline @
     bullet @ '' How severe they are on a scale of 1-10?'' @ newline @ newline @
     ''This information will help me better understand your situation and provide appropriate '' @
     ''guidance. Remember, if you're experiencing a medical emergency, please call 911 '' @
     ''immediately.''"

text \<open>The \<^verbatim>\<open>if\<close> / \<^verbatim>\<open>else if\<close> chain of lines 168--214. \<^verbatim>\<open>clinics.clinics.map\<close> is a call
  on an array; on an inherited prototype member it would throw.\<close>

definition compose_reply :: "(string \<Rightarrow> string) \<Rightarrow> string \<Rightarrow> profile_value option \<Rightarrow> js_error + string" where
  "compose_reply lower msg prof =
     (let lowerMessage = lower msg in
      if str_includes lowerMessage ''hello'' \<or> str_includes lowerMessage ''hi''
      then Inr greeting_reply
      else if str_includes lowerMessage ''pain'' \<or> str_includes lowerMessage ''hurt'' \<or>
              str_includes lowerMessage ''ache''
      then
        (let triage = mockTriageSymptoms lower msg in
         case profile_location prof of
           Inl e \<Rightarrow> Inl e
         | Inr loc \<Rightarrow>
             (let found = mockFindClinic loc (urgency_level triage)
              in case clinics found of
                   ClinicList cs \<Rightarrow> Inr (pain_reply triage loc cs)
                 | PrototypeMember member \<Rightarrow> Inl TypeError))
      else if str_includes lowerMessage ''fever'' \<or> str_includes lowerMessage ''temperature''
      then Inr (fever_reply (mockTriageSymptoms lower msg))
      else if str_includes lowerMessage ''insurance'' \<or> str_includes lowerMessage ''coverage''
      then Inr insurance_reply
      else if str_includes lowerMessage ''clinic'' \<or> str_includes lowerMessage ''doctor'' \<or>
              str_includes lowerMessage ''appointment''
      then
        (case profile_location prof of
           Inl e \<Rightarrow> Inl e
         | Inr loc \<Rightarrow>
             (let found = mockFindClinic loc ''medium''
              in case clinics found of
                   ClinicList cs \<Rightarrow> Inr (clinic_reply loc cs)
                 | PrototypeMember member \<Rightarrow> Inl TypeError))
      else Inr fallback_reply)"

text \<open>The spec's reading of the composer: six branches, tried in a fixed order on the
  lower-cased message, each with its keywords; the first one with a keyword in the message
  answers, the fallback when there is none.\<close>

datatype branch = Greeting | Pain | Fever | Insurance | Clinic | Fallback

definition branch_keywords :: "(branch \<times> string list) list" where
  "branch_keywords =
     [(Greeting, [''hello'', ''hi'']),
      (Pain, [''pain'', ''hurt'', ''ache'']),
      (Fever, [''fever'', ''temperature'']),
      (Insurance, [''insurance'', ''coverage'']),
      (Clinic, [''clinic'', ''doctor'', ''appointment''])]"

definition branch_hit :: "string \<Rightarrow> branch \<times> string list \<Rightarrow> bool" where
  "branch_hit lowerMessage entry = list_ex (str_includes lowerMessage) (snd entry)"

definition dispatch :: "string \<Rightarrow> branch" where
  "dispatch lowerMessage =
     (case find (branch_hit lowerMessage) branch_keywords of
        Some entry \<Rightarrow> fst entry
      | None \<Rightarrow> Fallback)"

text \<open>What each branch answers, from the classifier and the directory. The pain and the
  clinic branch read the profile's location; when that throws, so does the branch.\<close>

definition tier_clinics :: "string \<Rightarrow> string \<Rightarrow> clinic list" where
  "tier_clinics loc tier =
     (case map_of (clinics_table loc) tier of Some cs \<Rightarrow> cs | None \<Rightarrow> clinics_low loc)"

fun branch_reply ::
  "(string \<Rightarrow> string) \<Rightarrow> branch \<Rightarrow> string \<Rightarrow> profile_value option \<Rightarrow> js_error + string" where
  "branch_reply lower Greeting msg prof = Inr greeting_reply"
| "branch_reply lower Pain msg prof =
     (case profile_location prof of
        Inl e \<Rightarrow> Inl e
      | Inr loc \<Rightarrow>
          Inr (pain_reply (mockTriageSymptoms lower msg) loc
                 (tier_clinics loc (urgency_level (mockTriageSymptoms lower msg)))))"
| "branch_reply lower Fever msg prof = Inr (fever_reply (mockTriageSymptoms lower msg))"
| "branch_reply lower Insurance msg prof = Inr insurance_reply"
| "branch_reply lower Clinic msg prof =
     (case profile_location prof of
        Inl e \<Rightarrow> Inl e
      | Inr loc \<Rightarrow> Inr (clinic_reply loc (tier_clinics loc ''medium'')))"
| "branch_reply lower Fallback msg prof = Inr fallback_reply"


section \<open>Conversation store and the handlers that change it\<close>

record chat_message =
  role :: string
  content :: string

text \<open>\<^verbatim>\<open>conversationStore\<close>: the own properties of the object, user id to message array.\<close>

type_synonym conversation_store = "string \<rightharpoonup> chat_message list"

text \<open>Lines 157--159: \<^verbatim>\<open>if (!conversationStore[user_id]) conversationStore[user_id] = []\<close>.
  An array and an inherited member are truthy.\<close>

definition init_history :: "conversation_store \<Rightarrow> string \<Rightarrow> conversation_store" where
  "init_history store uid =
     (case js_get store uid of
        Undefined \<Rightarrow> store(uid \<mapsto> [])
      | Own h \<Rightarrow> store
      | Inherited member \<Rightarrow> store)"

text \<open>Lines 162 and 217: \<^verbatim>\<open>conversationStore[user_id].push(m)\<close>. Only an array has
  \<^verbatim>\<open>push\<close>; on anything else the call throws a \<^verbatim>\<open>TypeError\<close>.\<close>

definition push :: "conversation_store \<Rightarrow> string \<Rightarrow> chat_message \<Rightarrow> js_error + conversation_store" where
  "push store uid m =
     (case js_get store uid of
        Own h \<Rightarrow> Inr (store(uid \<mapsto> h @ [m]))
      | Inherited member \<Rightarrow> Inl TypeError
      | Undefined \<Rightarrow> Inl TypeError)"

text \<open>The store's \<open>append\<close> of the spec is the two steps together, as the handler runs them
  for the user's message.\<close>

definition append_message :: "conversation_store \<Rightarrow> string \<Rightarrow> chat_message \<Rightarrow> js_error + conversation_store" where
  "append_message store uid m = push (init_history store uid) uid m"

text \<open>The source has no function that reads a history back; \<open>get_history\<close> is the spec's
  observer of the store: the array stored under the user id, and the empty sequence for an
  absent key.\<close>

definition get_history :: "conversation_store \<Rightarrow> string \<Rightarrow> chat_message list" where
  "get_history store uid = (case store uid of Some h \<Rightarrow> h | None \<Rightarrow> [])"

text \<open>Decimal digits of \<^verbatim>\<open>Date.now()\<close> in the thread id.\<close>

fun show_nat :: "nat \<Rightarrow> string" where
  "show_nat n =
     (if n < 10 then [char_of (48 + n)]
      else show_nat (n div 10) @ [char_of (48 + n mod 10)])"

definition bad_request :: response where
  "bad_request = \<lparr>http_status = 400, body = Error_body ''Message is required''\<rparr>"

definition internal_error :: response where
  "internal_error = \<lparr>http_status = 500, body = Error_body ''Internal server error''\<rparr>"

text \<open>The handler of \<^verbatim>\<open>POST /api/chat\<close>, given the runtime's lower-casing, the clock's
  reading, the store and the body;
  it returns the store it leaves and the response. \<^verbatim>\<open>!message\<close> holds for a missing
  message and for the empty string. An exception anywhere in the \<^verbatim>\<open>try\<close> block ends in
  the \<^verbatim>\<open>catch\<close>, with the store as it was when the exception was thrown.\<close>

definition chat ::
  "(string \<Rightarrow> string) \<Rightarrow> nat \<Rightarrow> conversation_store \<Rightarrow> chat_request \<Rightarrow>
   conversation_store \<times> response" where
  "chat lower now store req =
     (let uid = (case user_id req of None \<Rightarrow> ''default'' | Some u \<Rightarrow> u) in
      case message req of
        None \<Rightarrow> (store, bad_request)
      | Some msg \<Rightarrow>
          if msg = [] then (store, bad_request)
          else
            (let store1 = init_history store uid in
             case push store1 uid \<lparr>role = ''user'', content = msg\<rparr> of
               Inl e \<Rightarrow> (store1, internal_error)
             | Inr store2 \<Rightarrow>
                 (case compose_reply lower msg (profile req) of
                    Inl e \<Rightarrow> (store2, internal_error)
                  | Inr reply \<Rightarrow>
                      (case push store2 uid \<lparr>role = ''assistant'', content = reply\<rparr> of
                         Inl e \<Rightarrow> (store2, internal_error)
                       | Inr store3 \<Rightarrow>
                           (store3,
                            \<lparr>http_status = 200,
                             body = Chat_body reply ''success''
                                      (''thread_'' @ uid @ ''_'' @ show_nat now)\<rparr>)))))"

text \<open>The handler of \<^verbatim>\<open>POST /api/reset-conversation\<close>: \<^verbatim>\<open>delete\<close> removes an own property
  and does nothing, without an error, when there is none.\<close>

definition reset_conversation :: "conversation_store \<Rightarrow> string option \<Rightarrow> conversation_store \<times> response" where
  "reset_conversation store requested =
     (let uid = (case requested of None \<Rightarrow> ''default'' | Some u \<Rightarrow> u);
          store1 =
            (case js_get store uid of
               Undefined \<Rightarrow> store
             | Own h \<Rightarrow> store(uid := None)
             | Inherited member \<Rightarrow> store(uid := None))
      in (store1,
          \<lparr>http_status = 200,
           body = Reset_body ''success'' ''Conversation reset successfully''\<rparr>))"

definition reset :: "conversation_store \<Rightarrow> string \<Rightarrow> conversation_store" where
  "reset store uid = fst (reset_conversation store (Some uid))"


section \<open>Facts about strings\<close>

lemma startsWith_prefix: "startsWith s k = prefix k s"
  by (induction s k rule: startsWith.induct) auto

lemma str_includes_sublist: "str_includes s k = sublist k s"
proof (induction s)
  case Nil
  then show ?case by auto
next
  case (Cons c cs)
  then show ?case
    by (simp add: startsWith_prefix sublist_Cons_right)
qed

lemma startsWith_map: "startsWith s k \<Longrightarrow> startsWith (map f s) (map f k)"
  by (induction s k rule: startsWith.induct) auto

lemma str_includes_map: "str_includes s k \<Longrightarrow> str_includes (map f s) (map f k)"
proof (induction s)
  case Nil
  then show ?case by simp
next
  case (Cons c cs)
  from Cons.prems have "startsWith (c # cs) k \<or> str_includes cs k"
    by simp
  then show ?case
  proof
    assume "startsWith (c # cs) k"
    then have "startsWith (map f (c # cs)) (map f k)"
      by (rule startsWith_map)
    then show ?thesis by simp
  next
    assume "str_includes cs k"
    then have "str_includes (map f cs) (map f k)"
      by (rule Cons.IH)
    then show ?thesis by simp
  qed
qed

lemma str_includes_append: "str_includes (a @ k @ b) k"
  by (simp add: str_includes_sublist)

lemma str_includes_appendI1: "str_includes a k \<Longrightarrow> str_includes (a @ b) k"
  by (simp add: str_includes_sublist sublist_append)

lemma str_includes_appendI2: "str_includes b k \<Longrightarrow> str_includes (a @ b) k"
  by (simp add: str_includes_sublist sublist_append)

text \<open>The ASCII lower-casing keeps what is lower-case ASCII already.\<close>

lemma ascii_toLowerCase_fixes:
  "list_all lower_case_ascii k \<Longrightarrow> map ascii_toLowerCase_char k = k"
  by (induction k) (auto simp: lower_case_ascii_def ascii_toLowerCase_char_def Let_def)

lemma keeps_lower_case_ascii: "keeps_lower_case ascii_toLowerCase"
  unfolding keeps_lower_case_def ascii_toLowerCase_def
proof (intro allI impI)
  fix s k
  assume h: "list_all lower_case_ascii k \<and> str_includes s k"
  then have "str_includes (map ascii_toLowerCase_char s) (map ascii_toLowerCase_char k)"
    by (simp add: str_includes_map)
  with h show "str_includes (map ascii_toLowerCase_char s) k"
    by (simp add: ascii_toLowerCase_fixes)
qed

lemma emergency_keywords_lower_case:
  "list_all (list_all lower_case_ascii) emergency_keywords"
  by code_simp


section \<open>Facts about the classifier\<close>

lemma triage_chain:
  "mockTriageSymptoms lower s =
     (if hit (lower s) emergency_keywords
      then \<lparr>urgency_level = ''emergency'',
            reasoning = ''Based on the symptoms described, this appears to be emergency urgency.'',
            recommendations = [''Call 911 immediately'', ''Go to nearest emergency room'']\<rparr>
      else if hit (lower s) high_keywords
      then \<lparr>urgency_level = ''high'',
            reasoning = ''Based on the symptoms described, this appears to be high urgency.'',
            recommendations =
              [''Seek immediate medical attention'', ''Visit urgent care or emergency room'']\<rparr>
      else if hit (lower s) medium_keywords
      then \<lparr>urgency_level = ''medium'',
            reasoning = ''Based on the symptoms described, this appears to be medium urgency.'',
            recommendations =
              [''Schedule appointment with primary care'',
               ''Consider urgent care if symptoms worsen'']\<rparr>
      else if hit (lower s) low_keywords
      then \<lparr>urgency_level = ''low'',
            reasoning = ''Based on the symptoms described, this appears to be low urgency.'',
            recommendations =
              [''Monitor symptoms'', ''Rest and self-care'',
               ''Contact doctor if symptoms persist'']\<rparr>
      else \<lparr>urgency_level = ''low'',
            reasoning = ''Symptoms appear to be minor and manageable.'',
            recommendations =
              [''Monitor symptoms'', ''Rest and self-care'',
               ''Contact doctor if symptoms persist'']\<rparr>)"
  by (simp add: mockTriageSymptoms_def urgencyKeywords_def hit_def recommendations_for_def
      low_recommendations_def)

lemma triage_level_valid:
  "urgency_level (mockTriageSymptoms lower s) = ''emergency'' \<or>
   urgency_level (mockTriageSymptoms lower s) = ''high'' \<or>
   urgency_level (mockTriageSymptoms lower s) = ''medium'' \<or>
   urgency_level (mockTriageSymptoms lower s) = ''low''"
  by (simp add: triage_chain)

lemma raw_keyword_hit:
  assumes "keeps_lower_case lower" and "list_ex (str_includes s) emergency_keywords"
  shows "hit (lower s) emergency_keywords"
proof -
  from assms(2) obtain k where k: "k \<in> set emergency_keywords" and s: "str_includes s k"
    by (auto simp: list_ex_iff)
  from k emergency_keywords_lower_case have "list_all lower_case_ascii k"
    by (simp add: list_all_iff)
  with s assms(1) have "str_includes (lower s) k"
    unfolding keeps_lower_case_def by blast
  with k show ?thesis
    by (auto simp: hit_def list_ex_iff)
qed


section \<open>The claims about the classifier\<close>

text \<open>
  Claim C1. Whatever the lower-casing function, a text whose lower-cased form holds an
  emergency keyword is classified as emergency, with the emergency reasoning and
  recommendations, whatever keywords of the high, medium or low tier it also holds; so is a
  text that holds an emergency keyword as typed, since lower-casing keeps lower-case ASCII.
  The tier returned is the first with a keyword in the lower-cased text in the order
  emergency, high, medium, low, and low when there is none.
\<close>

theorem classify_emergency_first:
  "(hit (lower s) emergency_keywords \<longrightarrow>
      mockTriageSymptoms lower s =
        \<lparr>urgency_level = ''emergency'',
         reasoning = ''Based on the symptoms described, this appears to be emergency urgency.'',
         recommendations = [''Call 911 immediately'', ''Go to nearest emergency room'']\<rparr>) \<and>
   (keeps_lower_case lower \<and> list_ex (str_includes s) emergency_keywords \<longrightarrow>
      mockTriageSymptoms lower s =
        \<lparr>urgency_level = ''emergency'',
         reasoning = ''Based on the symptoms described, this appears to be emergency urgency.'',
         recommendations = [''Call 911 immediately'', ''Go to nearest emergency room'']\<rparr>) \<and>
   urgency_level (mockTriageSymptoms lower s) =
     (if hit (lower s) emergency_keywords then ''emergency''
      else if hit (lower s) high_keywords then ''high''
      else if hit (lower s) medium_keywords then ''medium''
      else if hit (lower s) low_keywords then ''low''
      else ''low'')"
proof (intro conjI impI)
  assume "hit (lower s) emergency_keywords"
  then show "mockTriageSymptoms lower s =
        \<lparr>urgency_level = ''emergency'',
         reasoning = ''Based on the symptoms described, this appears to be emergency urgency.'',
         recommendations = [''Call 911 immediately'', ''Go to nearest emergency room'']\<rparr>"
    by (simp add: triage_chain)
next
  assume "keeps_lower_case lower \<and> list_ex (str_includes s) emergency_keywords"
  then have "hit (lower s) emergency_keywords"
    by (simp add: raw_keyword_hit)
  then show "mockTriageSymptoms lower s =
        \<lparr>urgency_level = ''emergency'',
         reasoning = ''Based on the symptoms described, this appears to be emergency urgency.'',
         recommendations = [''Call 911 immediately'', ''Go to nearest emergency room'']\<rparr>"
    by (simp add: triage_chain)
next
  show "urgency_level (mockTriageSymptoms lower s) =
     (if hit (lower s) emergency_keywords then ''emergency''
      else if hit (lower s) high_keywords then ''high''
      else if hit (lower s) medium_keywords then ''medium''
      else if hit (lower s) low_keywords then ''low''
      else ''low'')"
    by (simp add: triage_chain)
qed

text \<open>The claim at texts that hold keywords of several tiers: with an emergency keyword in
  capitals, with one as typed, and without one, where the next tier in the order wins.\<close>

theorem classify_emergency_first_witness:
  "hit (ascii_toLowerCase ''Mild headache, fever, severe pain and CHEST PAIN'')
     emergency_keywords \<and>
   hit (ascii_toLowerCase ''Mild headache, fever, severe pain and CHEST PAIN'') high_keywords \<and>
   hit (ascii_toLowerCase ''Mild headache, fever, severe pain and CHEST PAIN'') medium_keywords \<and>
   hit (ascii_toLowerCase ''Mild headache, fever, severe pain and CHEST PAIN'') low_keywords \<and>
   mockTriageSymptoms ascii_toLowerCase ''Mild headache, fever, severe pain and CHEST PAIN'' =
     \<lparr>urgency_level = ''emergency'',
      reasoning = ''Based on the symptoms described, this appears to be emergency urgency.'',
      recommendations = [''Call 911 immediately'', ''Go to nearest emergency room'']\<rparr> \<and>
   keeps_lower_case ascii_toLowerCase \<and>
   list_ex (str_includes ''fatigue, nausea, high fever and chest pain'') emergency_keywords \<and>
   mockTriageSymptoms ascii_toLowerCase ''fatigue, nausea, high fever and chest pain'' =
     \<lparr>urgency_level = ''emergency'',
      reasoning = ''Based on the symptoms described, this appears to be emergency urgency.'',
      recommendations = [''Call 911 immediately'', ''Go to nearest emergency room'']\<rparr> \<and>
   urgency_level (mockTriageSymptoms ascii_toLowerCase ''Fatigue, nausea and HIGH FEVER'') =
     ''high'' \<and>
   urgency_level (mockTriageSymptoms ascii_toLowerCase ''Fatigue and NAUSEA'') = ''medium'' \<and>
   urgency_level (mockTriageSymptoms ascii_toLowerCase ''FATIGUE'') = ''low''"
proof -
  have e: "hit (ascii_toLowerCase ''Mild headache, fever, severe pain and CHEST PAIN'')
     emergency_keywords"
    by code_simp
  have h: "hit (ascii_toLowerCase ''Mild headache, fever, severe pain and CHEST PAIN'')
     high_keywords"
    by code_simp
  have m: "hit (ascii_toLowerCase ''Mild headache, fever, severe pain and CHEST PAIN'')
     medium_keywords"
    by code_simp
  have l: "hit (ascii_toLowerCase ''Mild headache, fever, severe pain and CHEST PAIN'')
     low_keywords"
    by code_simp
  have r: "list_ex (str_includes ''fatigue, nausea, high fever and chest pain'')
     emergency_keywords"
    by code_simp
  have h1: "\<not> hit (ascii_toLowerCase ''Fatigue, nausea and HIGH FEVER'') emergency_keywords"
    and h2: "hit (ascii_toLowerCase ''Fatigue, nausea and HIGH FEVER'') high_keywords"
    by code_simp+
  have m1: "\<not> hit (ascii_toLowerCase ''Fatigue and NAUSEA'') emergency_keywords"
    and m2: "\<not> hit (ascii_toLowerCase ''Fatigue and NAUSEA'') high_keywords"
    and m3: "hit (ascii_toLowerCase ''Fatigue and NAUSEA'') medium_keywords"
    by code_simp+
  have l1: "\<not> hit (ascii_toLowerCase ''FATIGUE'') emergency_keywords"
    and l2: "\<not> hit (ascii_toLowerCase ''FATIGUE'') high_keywords"
    and l3: "\<not> hit (ascii_toLowerCase ''FATIGUE'') medium_keywords"
    by code_simp+
  from e h m l r keeps_lower_case_ascii h1 h2 m1 m2 m3 l1 l2 l3
    classify_emergency_first
      [of ascii_toLowerCase "''Mild headache, fever, severe pain and CHEST PAIN''"]
    classify_emergency_first [of ascii_toLowerCase "''fatigue, nausea, high fever and chest pain''"]
    classify_emergency_first [of ascii_toLowerCase "''Fatigue, nausea and HIGH FEVER''"]
    classify_emergency_first [of ascii_toLowerCase "''Fatigue and NAUSEA''"]
    classify_emergency_first [of ascii_toLowerCase "''FATIGUE''"]
  show ?thesis by simp
qed

text \<open>
  Claim C2. The classifier is a total function: whatever the lower-casing function, every
  text gets exactly one of the four tiers; and a text whose lower-cased form holds no keyword
  of the emergency, high, medium or low tier gets tier low with the generic reasoning and the
  fixed low-tier recommendations.
\<close>

theorem classify_total_default_low:
  "(\<exists>!t. t \<in> set valid_tiers \<and> urgency_level (mockTriageSymptoms lower s) = t) \<and>
   (\<not> hit (lower s) emergency_keywords \<and> \<not> hit (lower s) high_keywords \<and>
    \<not> hit (lower s) medium_keywords \<and> \<not> hit (lower s) low_keywords \<longrightarrow>
      mockTriageSymptoms lower s =
        \<lparr>urgency_level = ''low'',
         reasoning = ''Symptoms appear to be minor and manageable.'',
         recommendations =
           [''Monitor symptoms'', ''Rest and self-care'',
            ''Contact doctor if symptoms persist'']\<rparr>)"
proof (intro conjI impI)
  have "urgency_level (mockTriageSymptoms lower s) \<in> set valid_tiers"
    using triage_level_valid [of lower s] by (auto simp: valid_tiers_def)
  then show "\<exists>!t. t \<in> set valid_tiers \<and> urgency_level (mockTriageSymptoms lower s) = t"
    by auto
next
  assume "\<not> hit (lower s) emergency_keywords \<and> \<not> hit (lower s) high_keywords \<and>
    \<not> hit (lower s) medium_keywords \<and> \<not> hit (lower s) low_keywords"
  then show "mockTriageSymptoms lower s =
        \<lparr>urgency_level = ''low'',
         reasoning = ''Symptoms appear to be minor and manageable.'',
         recommendations =
           [''Monitor symptoms'', ''Rest and self-care'',
            ''Contact doctor if symptoms persist'']\<rparr>"
    by (simp add: triage_chain)
qed

theorem classify_total_default_low_witness:
  "\<not> hit (ascii_toLowerCase ''My KNEE feels stiff'') emergency_keywords \<and>
   \<not> hit (ascii_toLowerCase ''My KNEE feels stiff'') high_keywords \<and>
   \<not> hit (ascii_toLowerCase ''My KNEE feels stiff'') medium_keywords \<and>
   \<not> hit (ascii_toLowerCase ''My KNEE feels stiff'') low_keywords \<and>
   mockTriageSymptoms ascii_toLowerCase ''My KNEE feels stiff'' =
     \<lparr>urgency_level = ''low'',
      reasoning = ''Symptoms appear to be minor and manageable.'',
      recommendations =
        [''Monitor symptoms'', ''Rest and self-care'',
         ''Contact doctor if symptoms persist'']\<rparr>"
proof -
  have h: "\<not> hit (ascii_toLowerCase ''My KNEE feels stiff'') emergency_keywords"
    "\<not> hit (ascii_toLowerCase ''My KNEE feels stiff'') high_keywords"
    "\<not> hit (ascii_toLowerCase ''My KNEE feels stiff'') medium_keywords"
    "\<not> hit (ascii_toLowerCase ''My KNEE feels stiff'') low_keywords"
    by code_simp+
  from h classify_total_default_low [of ascii_toLowerCase "''My KNEE feels stiff''"]
  show ?thesis by simp
qed


section \<open>Facts about the directory and the composer\<close>

lemma find_clinic_own:
  "map_of (clinics_table loc) u \<noteq> None \<Longrightarrow>
   clinics (mockFindClinic loc u) = ClinicList (tier_clinics loc u)"
  by (auto simp: mockFindClinic_def js_get_def tier_clinics_def)

lemma clinics_table_valid:
  "u = ''emergency'' \<or> u = ''high'' \<or> u = ''medium'' \<or> u = ''low'' \<Longrightarrow>
   map_of (clinics_table loc) u \<noteq> None"
  by (auto simp: clinics_table_def)

lemma find_clinic_triage:
  "clinics (mockFindClinic loc (urgency_level (mockTriageSymptoms lower msg))) =
   ClinicList (tier_clinics loc (urgency_level (mockTriageSymptoms lower msg)))"
  by (rule find_clinic_own, rule clinics_table_valid) (rule triage_level_valid)

lemma find_clinic_medium:
  "clinics (mockFindClinic loc ''medium'') = ClinicList (tier_clinics loc ''medium'')"
  by (rule find_clinic_own, rule clinics_table_valid) simp

lemma compose_reply_branch:
  "compose_reply lower msg prof = branch_reply lower (dispatch (lower msg)) msg prof"
  by (simp add: compose_reply_def Let_def dispatch_def branch_keywords_def branch_hit_def
      find_clinic_triage find_clinic_medium split: sum.splits)




lemma endsWith_suffix: "endsWith s k = suffix k s"
  by (simp add: endsWith_def startsWith_prefix suffix_to_prefix)

lemma endsWith_append: "endsWith (a @ k) k"
  by (simp add: endsWith_suffix suffix_def)

lemma warning_not_disclaimer: "\<not> endsWith (a @ emergency_warning) disclaimer"
  by (simp add: endsWith_def emergency_warning_def disclaimer_def warning_sign_def)

lemma disclaimer_not_warning: "\<not> endsWith (a @ disclaimer) emergency_warning"
  by (simp add: endsWith_def emergency_warning_def disclaimer_def warning_sign_def)

lemma warning_sentence:
  "str_includes (a @ emergency_warning)
     ''If this is a medical emergency, please call 911 immediately.''"
proof -
  have "str_includes emergency_warning
     ''If this is a medical emergency, please call 911 immediately.''"
    by code_simp
  then show ?thesis by (rule str_includes_appendI2)
qed

lemma pain_reply_states_tier:
  "urgency_level t = ''emergency'' \<Longrightarrow>
   str_includes (pain_reply t loc cs) ''I've assessed this as emergency urgency.''"
  by (simp add: pain_reply_def)


section \<open>The claims about the reply composer\<close>




text \<open>
  Claim C3, as amended. The emergency warning belongs to the pain branch only. Whatever the
  lower-casing function, when the composer answers from the pain branch and the location of
  the profile can be read, there is a reply: it ends with the emergency warning, and not with
  the disclaimer, exactly when the triage tier is emergency; it then holds the sentence
  ``If this is a medical emergency, please call 911 immediately.'' and states the tier
  emergency. For every other tier the pain reply ends with the virtual-assistant disclaimer.
  The message ``I have chest pain'' is answered this way.
\<close>

theorem pain_reply_closing_paragraph:
  assumes "dispatch (lower msg) = Pain" and "profile_location prof = Inr loc"
  shows "case compose_reply lower msg prof of
           Inl e \<Rightarrow> False
         | Inr reply \<Rightarrow>
             if urgency_level (mockTriageSymptoms lower msg) = ''emergency''
             then endsWith reply emergency_warning \<and> \<not> endsWith reply disclaimer \<and>
                  str_includes reply
                    ''If this is a medical emergency, please call 911 immediately.'' \<and>
                  str_includes reply ''I've assessed this as emergency urgency.''
             else endsWith reply disclaimer \<and> \<not> endsWith reply emergency_warning"
proof -
  let ?t = "mockTriageSymptoms lower msg"
  let ?r = "pain_reply ?t loc (tier_clinics loc (urgency_level ?t))"
  have r: "compose_reply lower msg prof = Inr ?r"
    using assms by (simp add: compose_reply_branch)
  obtain p where p: "?r = p @ pain_closing (urgency_level ?t)"
    unfolding pain_reply_def by blast
  show ?thesis
  proof (cases "urgency_level ?t = ''emergency''")
    case True
    with p have e: "?r = p @ emergency_warning"
      by (simp add: pain_closing_def)
    have "endsWith ?r emergency_warning"
      unfolding e by (rule endsWith_append)
    moreover have "\<not> endsWith ?r disclaimer"
      unfolding e by (rule warning_not_disclaimer)
    moreover have "str_includes ?r
        ''If this is a medical emergency, please call 911 immediately.''"
      unfolding e by (rule warning_sentence)
    moreover have "str_includes ?r ''I've assessed this as emergency urgency.''"
      using True by (rule pain_reply_states_tier)
    ultimately show ?thesis
      using True r by simp
  next
    case False
    with p have e: "?r = p @ disclaimer"
      by (simp add: pain_closing_def)
    have "endsWith ?r disclaimer"
      unfolding e by (rule endsWith_append)
    moreover have "\<not> endsWith ?r emergency_warning"
      unfolding e by (rule disclaimer_not_warning)
    ultimately show ?thesis
      using False r by simp
  qed
qed

theorem pain_reply_closing_paragraph_witness:
  "dispatch (ascii_toLowerCase ''I have chest pain'') = Pain \<and>
   profile_location None = Inr ''your area'' \<and>
   urgency_level (mockTriageSymptoms ascii_toLowerCase ''I have chest pain'') = ''emergency'' \<and>
   (case compose_reply ascii_toLowerCase ''I have chest pain'' None of
      Inl e \<Rightarrow> False
    | Inr reply \<Rightarrow>
        endsWith reply emergency_warning \<and> \<not> endsWith reply disclaimer \<and>
        str_includes reply ''If this is a medical emergency, please call 911 immediately.'' \<and>
        str_includes reply ''I've assessed this as emergency urgency.'' \<and>
        \<not> str_includes reply disclaimer)"
proof -
  have d: "dispatch (ascii_toLowerCase ''I have chest pain'') = Pain"
    by code_simp
  have l: "profile_location None = Inr ''your area''"
    by (simp add: profile_location_def)
  have t: "urgency_level (mockTriageSymptoms ascii_toLowerCase ''I have chest pain'') =
      ''emergency''"
    by code_simp
  obtain reply where reply: "compose_reply ascii_toLowerCase ''I have chest pain'' None = Inr reply"
    using d l by (simp add: compose_reply_branch)
  have n: "case compose_reply ascii_toLowerCase ''I have chest pain'' None of
      Inl e \<Rightarrow> False | Inr reply \<Rightarrow> \<not> str_includes reply disclaimer"
    by code_simp
  from pain_reply_closing_paragraph
      [of ascii_toLowerCase "''I have chest pain''" None "''your area''"] d l t n reply
  show ?thesis by simp
qed

text \<open>
  Claim C3 as stated fails in every branch but the pain branch, and in the pain branch when
  the profile is \<open>null\<close>. Each of these messages is classified as emergency; the first five
  are answered by the fallback, fever, greeting, insurance and clinic template, none of which
  holds the warning sentence, and the last one, with the profile \<open>null\<close>, gets no reply.
\<close>

theorem emergency_without_warning_counterexample:
  "urgency_level (mockTriageSymptoms ascii_toLowerCase ''My father is unconscious'') =
     ''emergency'' \<and>
   compose_reply ascii_toLowerCase ''My father is unconscious'' None = Inr fallback_reply \<and>
   \<not> str_includes fallback_reply
       ''If this is a medical emergency, please call 911 immediately.'' \<and>
   urgency_level (mockTriageSymptoms ascii_toLowerCase ''fever and unconscious'') =
     ''emergency'' \<and>
   compose_reply ascii_toLowerCase ''fever and unconscious'' None =
     Inr (fever_reply (mockTriageSymptoms ascii_toLowerCase ''fever and unconscious'')) \<and>
   \<not> str_includes (fever_reply (mockTriageSymptoms ascii_toLowerCase ''fever and unconscious''))
       ''If this is a medical emergency, please call 911 immediately.'' \<and>
   urgency_level (mockTriageSymptoms ascii_toLowerCase ''hello, I have chest pain'') =
     ''emergency'' \<and>
   compose_reply ascii_toLowerCase ''hello, I have chest pain'' None = Inr greeting_reply \<and>
   \<not> str_includes greeting_reply
       ''If this is a medical emergency, please call 911 immediately.'' \<and>
   urgency_level (mockTriageSymptoms ascii_toLowerCase ''insurance for a stroke'') =
     ''emergency'' \<and>
   compose_reply ascii_toLowerCase ''insurance for a stroke'' None = Inr insurance_reply \<and>
   \<not> str_includes insurance_reply
       ''If this is a medical emergency, please call 911 immediately.'' \<and>
   urgency_level (mockTriageSymptoms ascii_toLowerCase ''doctor, he is unconscious'') =
     ''emergency'' \<and>
   compose_reply ascii_toLowerCase ''doctor, he is unconscious'' None =
     Inr (clinic_reply ''your area'' (tier_clinics ''your area'' ''medium'')) \<and>
   \<not> str_includes (clinic_reply ''your area'' (tier_clinics ''your area'' ''medium''))
       ''If this is a medical emergency, please call 911 immediately.'' \<and>
   urgency_level (mockTriageSymptoms ascii_toLowerCase ''I have chest pain'') = ''emergency'' \<and>
   compose_reply ascii_toLowerCase ''I have chest pain'' (Some Profile_null) = Inl TypeError"
  by (intro conjI) code_simp+


section \<open>The claims about the clinic directory\<close>





section \<open>The claims about the conversation store\<close>

text \<open>Appending keeps the order and the chat handler only ever extends a history, for every
  user id that is not the name of a member of \<^verbatim>\<open>Object.prototype\<close>.\<close>

lemma get_history_init: "get_history (init_history store uid) u = get_history store u"
  by (auto simp: init_history_def get_history_def js_get_def split: option.splits)

lemma push_Inr:
  "push store uid m = Inr s \<Longrightarrow> s = store(uid \<mapsto> get_history store uid @ [m])"
  by (auto simp: push_def get_history_def js_get_def split: option.splits if_splits)

lemma push_history:
  "push store uid m = Inr s \<Longrightarrow>
   get_history s u = (if u = uid then get_history store uid @ [m] else get_history store u)"
  by (auto dest!: push_Inr simp: get_history_def)

lemma append_message_ok:
  assumes "uid \<notin> set object_prototype_keys"
  shows "append_message store uid m =
    Inr ((init_history store uid)(uid \<mapsto> get_history store uid @ [m]))"
  using assms
  by (auto simp: append_message_def push_def init_history_def js_get_def get_history_def
      split: option.splits)

lemma append_message_own:
  assumes "store uid = Some h"
  shows "append_message store uid m = Inr (store(uid \<mapsto> h @ [m]))"
  using assms
  by (auto simp: append_message_def push_def init_history_def js_get_def)

lemma append_order:
  assumes "uid \<notin> set object_prototype_keys"
  shows "\<exists>s1 s2 s3. append_message store uid a = Inr s1 \<and> append_message s1 uid b = Inr s2 \<and>
           append_message s2 uid c = Inr s3 \<and>
           get_history s3 uid = get_history store uid @ [a, b, c]"
  using assms by (simp add: append_message_ok append_message_own get_history_def)

lemma chat_keeps_history:
  "prefix (get_history store u) (get_history (fst (chat lower now store req)) u)"
  by (auto simp: chat_def Let_def get_history_init push_history
      split: option.splits sum.splits)

lemma reset_other: "u \<noteq> uid \<Longrightarrow> get_history (reset store uid) u = get_history store u"
  by (auto simp: reset_def reset_conversation_def get_history_def Let_def
      split: js_property.splits)

text \<open>
  Claim C6 says that for every user id three appends yield the three messages in order. For
  the user id \<open>constructor\<close> the store's lookup finds the inherited member, which is truthy, so
  no array is created, \<^verbatim>\<open>push\<close> is not a function of it and the append throws: the chat
  handler answers 500 and the history of that user stays empty.
\<close>

theorem append_inherited_user_id:
  "append_message Map.empty ''constructor'' \<lparr>role = ''user'', content = ''A''\<rparr> = Inl TypeError \<and>
   snd (chat lower 0 Map.empty
          \<lparr>message = Some ''hello'', profile = None, user_id = Some ''constructor''\<rparr>) =
     \<lparr>http_status = 500, body = Error_body ''Internal server error''\<rparr> \<and>
   get_history
     (fst (chat lower 0 Map.empty
             \<lparr>message = Some ''hello'', profile = None, user_id = Some ''constructor''\<rparr>))
     ''constructor'' = []"
  by (simp add: append_message_def push_def init_history_def js_get_def chat_def
      internal_error_def get_history_def object_prototype_keys_def)

text \<open>
  Claim C7. The reset handler always answers with success, also for a user without a
  session and for the default user; resetting twice leaves the store that resetting once
  leaves; after a reset the history of the user is empty, also in a store that never held the
  user; and resetting a user that has no session leaves the store as it is.
\<close>

theorem reset_idempotent:
  "snd (reset_conversation store requested) =
     \<lparr>http_status = 200, body = Reset_body ''success'' ''Conversation reset successfully''\<rparr> \<and>
   fst (reset_conversation store None) = reset store ''default'' \<and>
   reset (reset store uid) uid = reset store uid \<and>
   get_history (reset store uid) uid = [] \<and>
   get_history (reset Map.empty uid) uid = [] \<and>
   reset (store(uid := None)) uid = store(uid := None)"
  by (auto simp: reset_def reset_conversation_def get_history_def js_get_def Let_def
      split: js_property.splits option.splits)


section \<open>The claims about the handlers\<close>

text \<open>
  Claim C8. A chat request without a message field is answered with status 400 and the error
  ``Message is required'', the store unchanged; a request with a non-empty message is never
  answered with status 400.
\<close>

theorem chat_message_required:
  "(message req = None \<longrightarrow>
      chat lower now store req =
        (store, \<lparr>http_status = 400, body = Error_body ''Message is required''\<rparr>)) \<and>
   (\<forall>m. message req = Some m \<and> m \<noteq> [] \<longrightarrow>
      http_status (snd (chat lower now store req)) \<noteq> 400)"
  by (auto simp: chat_def Let_def bad_request_def internal_error_def
      split: option.splits sum.splits)

theorem chat_message_required_witness:
  "message \<lparr>message = None, profile = None, user_id = None\<rparr> = None \<and>
   chat ascii_toLowerCase 0 Map.empty \<lparr>message = None, profile = None, user_id = None\<rparr> =
     (Map.empty, \<lparr>http_status = 400, body = Error_body ''Message is required''\<rparr>) \<and>
   message \<lparr>message = Some ''hello'', profile = None, user_id = None\<rparr> = Some ''hello'' \<and>
   ''hello'' \<noteq> [] \<and>
   http_status
     (snd (chat ascii_toLowerCase 0 Map.empty
             \<lparr>message = Some ''hello'', profile = None, user_id = None\<rparr>)) \<noteq> 400"
  using chat_message_required
      [of "\<lparr>message = None, profile = None, user_id = None\<rparr>" ascii_toLowerCase 0 Map.empty]
    chat_message_required
      [of "\<lparr>message = Some ''hello'', profile = None, user_id = None\<rparr>" ascii_toLowerCase 0
        Map.empty]
  by simp

text \<open>
  Claim C10. The check is falsiness: a chat request whose message is the empty string is
  answered with status 400 and ``Message is required'' and leaves the store as it was; and
  whenever the chat handler answers 400, the store is unchanged, the error is ``Message is
  required'' and the message was missing or empty.
\<close>

theorem chat_empty_message_atomic:
  "chat lower now store (req\<lparr>message := Some []\<rparr>) =
     (store, \<lparr>http_status = 400, body = Error_body ''Message is required''\<rparr>) \<and>
   (http_status (snd (chat lower now store req)) = 400 \<longrightarrow>
      fst (chat lower now store req) = store \<and>
      body (snd (chat lower now store req)) = Error_body ''Message is required'' \<and>
      (message req = None \<or> message req = Some []))"
  by (auto simp: chat_def Let_def bad_request_def internal_error_def
      split: option.splits sum.splits)

theorem chat_empty_message_atomic_witness:
  "http_status
     (snd (chat ascii_toLowerCase 7 [''u'' \<mapsto> [\<lparr>role = ''user'', content = ''hello''\<rparr>]]
             \<lparr>message = Some [], profile = None, user_id = Some ''u''\<rparr>)) = 400 \<and>
   fst (chat ascii_toLowerCase 7 [''u'' \<mapsto> [\<lparr>role = ''user'', content = ''hello''\<rparr>]]
          \<lparr>message = Some [], profile = None, user_id = Some ''u''\<rparr>) =
     [''u'' \<mapsto> [\<lparr>role = ''user'', content = ''hello''\<rparr>]]"
  using chat_empty_message_atomic
      [of ascii_toLowerCase 7 "[''u'' \<mapsto> [\<lparr>role = ''user'', content = ''hello''\<rparr>]]"
        "\<lparr>message = Some [], profile = None, user_id = Some ''u''\<rparr>"]
  by simp

text \<open>
  Claim C9. The insurance summary of a file name is the summary of any other file name with
  the filename field set to it: plan name, provider, member id, group number, coverage details
  and key benefits are fixed. The upload of a file of MIME type \<open>application/pdf\<close> is
  answered with status 200, the file's original name and that summary with the original name
  as its filename, whatever the stored file holds.
\<close>

theorem insurance_summary_fixed:
  "mockInsuranceCheck f = (mockInsuranceCheck g)\<lparr>filename := f\<rparr> \<and>
   filename (mockInsuranceCheck f) = f \<and>
   plan_name (mockInsuranceCheck f) = ''Health Plus Premium Plan'' \<and>
   provider (mockInsuranceCheck f) = ''Blue Cross Blue Shield'' \<and>
   member_id (mockInsuranceCheck f) = ''ABC123456789'' \<and>
   group_number (mockInsuranceCheck f) = ''GRP001'' \<and>
   coverage_details (mockInsuranceCheck f) = coverage_details (mockInsuranceCheck g) \<and>
   key_benefits (mockInsuranceCheck f) = key_benefits (mockInsuranceCheck g) \<and>
   (mimetype file = ''application/pdf'' \<longrightarrow>
      upload (Some file) =
        \<lparr>http_status = 200,
         body = Upload_body ''success'' (originalname file)
                  ((mockInsuranceCheck g)\<lparr>filename := originalname file\<rparr>)
                  ''Insurance document processed successfully''\<rparr>)"
  by (simp add: mockInsuranceCheck_def upload_def)

theorem insurance_summary_fixed_witness:
  "mimetype \<lparr>originalname = ''card.pdf'', mimetype = ''application/pdf'', path = ''uploads/1'',
              size = 10\<rparr> = ''application/pdf'' \<and>
   upload (Some \<lparr>originalname = ''card.pdf'', mimetype = ''application/pdf'', path = ''uploads/1'',
              size = 10\<rparr>) =
     \<lparr>http_status = 200,
      body = Upload_body ''success'' ''card.pdf''
               ((mockInsuranceCheck ''other.pdf'')\<lparr>filename := ''card.pdf''\<rparr>)
               ''Insurance document processed successfully''\<rparr>"
  using insurance_summary_fixed [of "''card.pdf''" "''other.pdf''"
      "\<lparr>originalname = ''card.pdf'', mimetype = ''application/pdf'', path = ''uploads/1'',
        size = 10\<rparr>"]
  by simp

end
